theory Spec2Isabelle
  imports Complex_Main
begin

section \<open>The marker-cluster directive (directives/marker-cluster.ts)\<close>

text \<open>
  The directive \<open>AgmMarkerCluster\<close> is an adapter between the host framework and a
  cluster manager. Its methods are embedded as functions from the directive's state to
  the list of calls they make on their collaborators (in the order the source makes
  them) and the state they leave behind. A \<open>throw\<close> is the value \<open>Inl\<close> of the result.
\<close>

subsection \<open>Types of the collaborators\<close>

text \<open>A JavaScript number. The directive only copies numbers, it never computes with them.\<close>

type_synonym number = real

text \<open>
  \<open>ClusterStyle\<close> is declared in services/google-clusterer-types; the directive stores
  and forwards a value of it and never looks inside.
\<close>

typedecl ClusterStyle

text \<open>
  \<open>ClusterOptions\<close>: the eight options of the object literal that \<open>ngOnInit\<close> passes to
  the manager, in the literal's order. An input the host has not bound is \<open>undefined\<close>,
  here \<open>None\<close>.
\<close>

record ClusterOptions =
  gridSize :: "number option"
  maxZoom :: "number option"
  zoomOnClick :: "bool option"
  averageCenter :: "bool option"
  minimumClusterSize :: "number option"
  styles :: "ClusterStyle option"
  imagePath :: "string option"
  imageExtension :: "string option"

text \<open>
  A point with its two accessors \<open>lat()\<close> and \<open>lng()\<close>; the \<open>center\<close> literal of the
  click event has the same two fields.
\<close>

record LatLng =
  lat :: number
  lng :: number

record LatLngBounds =
  getNorthEast :: LatLng
  getSouthWest :: LatLng

text \<open>
  A marker of the mapping library has a \<open>title\<close> among other properties: a cluster
  holds markers of type \<open>'m Marker_scheme\<close>, where \<open>'m\<close> stands for everything but the
  title. The entries of the click event's \<open>markers\<close> field are of type \<open>Marker\<close>: the
  title and nothing else.
\<close>

record Marker =
  title :: "string option"

record 'm Cluster =
  getCenter :: LatLng
  getBounds :: LatLngBounds
  getMarkers :: "'m Marker_scheme list"

record Bounds =
  north :: number
  east :: number
  south :: number
  west :: number

record AgmClusterClickEvent =
  bounds :: Bounds
  center :: LatLng
  markers :: "Marker list"

text \<open>
  A projected info window. \<open>hostMarker\<close> is the field that \<open>handleInfoWindowUpdate\<close>
  assigns: it refers to a marker component, to this directive, or is not set.
\<close>

datatype host = AgmMarker nat | This

record AgmInfoWindow =
  iwId :: nat
  hostMarker :: "host option"

text \<open>
  A subscription as \<open>subscribe\<close> returns it: the event of the stream it listens on, the
  callback it runs, and whether it has been released.
\<close>

datatype observer = ClusterClickObserver | DoubleClickObserver

record Subscription =
  eventName :: string
  observer :: observer
  closed :: bool

text \<open>A value of a \<open>SimpleChange\<close>, and the change record the framework passes.\<close>

datatype any = Undefined | Number number | Boolean bool | String string | Style ClusterStyle

record SimpleChange =
  previousValue :: any
  currentValue :: any
  firstChange :: bool

subsection \<open>The directive's state and what it does to the outside\<close>

text \<open>
  The fields of the class: the eight options (the class implements \<open>ClusterOptions\<close>),
  \<open>openInfoWindow\<close>, the content list \<open>infoWindow\<close> and \<open>_observableSubscriptions\<close>.
\<close>

record AgmMarkerCluster = ClusterOptions +
  openInfoWindow :: bool
  infoWindow :: "AgmInfoWindow list"
  observableSubscriptions :: "Subscription list"

text \<open>
  The calls the directive makes: the methods of \<open>_clusterManager\<close> (the setters always
  receive \<open>this\<close>, and so does \<open>createClusterEventObservable\<close> after the event name),
  \<open>open()\<close> of an info window, \<open>emit\<close> of the output \<open>clusterClick\<close>, and \<open>console.log\<close>.
\<close>

datatype 'm effect =
    setGridSize
  | setMaxZoom
  | setStyles
  | setZoomOnClick
  | setAverageCenter
  | setMinimumClusterSize
  | setImagePath
  | setImageExtension
  | init ClusterOptions
  | clearMarkers
  | createClusterEventObservable string
  | infoWindow_open nat
  | clusterClick_emit AgmClusterClickEvent
  | console_log "'m Cluster"

datatype error = Error string

subsection \<open>Construction and the info-window guard\<close>

text \<open>The field initialisers: \<open>openInfoWindow = true\<close>, an empty content list, no subscription.\<close>

definition fieldInitializers :: AgmMarkerCluster where
  "fieldInitializers =
     \<lparr>gridSize = None, maxZoom = None, zoomOnClick = None, averageCenter = None,
      minimumClusterSize = None, styles = None, imagePath = None, imageExtension = None,
      openInfoWindow = True, infoWindow = [], observableSubscriptions = []\<rparr>"

text \<open>
  \<open>handleInfoWindowUpdate\<close>: the length check and its \<open>throw\<close> come first, then the loop
  that assigns \<open>hostMarker\<close>. The state is returned in both cases, so that what a failing
  call leaves behind can be read.
\<close>

definition handleInfoWindowUpdate :: "AgmMarkerCluster \<Rightarrow> (error + unit) \<times> AgmMarkerCluster" where
  "handleInfoWindowUpdate this =
     (if length (infoWindow this) > 1
      then (Inl (Error ''Expected no more than one info window.''), this)
      else (Inr (),
            this\<lparr>infoWindow := map (\<lambda>marker. marker\<lparr>hostMarker := Some This\<rparr>) (infoWindow this)\<rparr>))"

text \<open>The constructor runs the guard once on the initial state.\<close>

definition constructor :: "(error + unit) \<times> AgmMarkerCluster" where
  "constructor = handleInfoWindowUpdate fieldInitializers"

subsection \<open>The lifecycle hooks\<close>

text \<open>
  \<open>_addEventListeners\<close>: two observables are created, each is subscribed to, and the two
  subscriptions are pushed on \<open>_observableSubscriptions\<close>.
\<close>

definition addEventListeners :: "AgmMarkerCluster \<Rightarrow> 'm effect list \<times> AgmMarkerCluster" where
  "addEventListeners this =
     (let clusterClickSubscription =
            \<lparr>eventName = ''clusterclick'', observer = ClusterClickObserver, closed = False\<rparr>;
          doubleClickSubscription =
            \<lparr>eventName = ''dblclick'', observer = DoubleClickObserver, closed = False\<rparr>
      in ([createClusterEventObservable ''clusterclick'', createClusterEventObservable ''dblclick''],
          this\<lparr>observableSubscriptions :=
                 observableSubscriptions this @ [clusterClickSubscription, doubleClickSubscription]\<rparr>))"

text \<open>
  \<open>ngOnChanges\<close>: one \<open>if\<close> per key, in the source's order (\<open>styles\<close> is tested at two
  places), then \<open>_addEventListeners\<close>. A key is present when the map holds a change for it.
\<close>

definition ngOnChanges ::
  "(string \<rightharpoonup> SimpleChange) \<Rightarrow> AgmMarkerCluster \<Rightarrow> 'm effect list \<times> AgmMarkerCluster" where
  "ngOnChanges changes this =
     (let calls =
            (if changes ''gridSize'' \<noteq> None then [setGridSize] else []) @
            (if changes ''maxZoom'' \<noteq> None then [setMaxZoom] else []) @
            (if changes ''styles'' \<noteq> None then [setStyles] else []) @
            (if changes ''zoomOnClick'' \<noteq> None then [setZoomOnClick] else []) @
            (if changes ''averageCenter'' \<noteq> None then [setAverageCenter] else []) @
            (if changes ''minimumClusterSize'' \<noteq> None then [setMinimumClusterSize] else []) @
            (if changes ''styles'' \<noteq> None then [setStyles] else []) @
            (if changes ''imagePath'' \<noteq> None then [setImagePath] else []) @
            (if changes ''imageExtension'' \<noteq> None then [setImageExtension] else []);
          listeners = addEventListeners this
      in (calls @ fst listeners, snd listeners))"

definition ngOnInit :: "AgmMarkerCluster \<Rightarrow> 'm effect list \<times> AgmMarkerCluster" where
  "ngOnInit this =
     ([init \<lparr>gridSize = gridSize this,
             maxZoom = maxZoom this,
             zoomOnClick = zoomOnClick this,
             averageCenter = averageCenter this,
             minimumClusterSize = minimumClusterSize this,
             styles = styles this,
             imagePath = imagePath this,
             imageExtension = imageExtension this\<rparr>],
      this)"

definition ngOnDestroy :: "AgmMarkerCluster \<Rightarrow> 'm effect list \<times> AgmMarkerCluster" where
  "ngOnDestroy this = ([clearMarkers], this)"

subsection \<open>The two callbacks of \<open>_addEventListeners\<close>\<close>

text \<open>The event literal that the click callback builds from the cluster.\<close>

definition clusterClickEvent :: "'m Cluster \<Rightarrow> AgmClusterClickEvent" where
  "clusterClickEvent cluster =
     (let clusterCenter = getCenter cluster;
          northEastBounds = getNorthEast (getBounds cluster);
          southWestBounds = getSouthWest (getBounds cluster)
      in \<lparr>bounds = \<lparr>north = lat northEastBounds,
                    east = lng northEastBounds,
                    south = lat southWestBounds,
                    west = lng southWestBounds\<rparr>,
          center = \<lparr>lat = lat clusterCenter, lng = lng clusterCenter\<rparr>,
          markers = map (\<lambda>marker. \<lparr>title = title marker\<rparr>) (getMarkers cluster)\<rparr>)"

text \<open>
  The click callback reads \<open>openInfoWindow\<close> and \<open>infoWindow\<close> when it runs: it opens
  every info window of the content list if the flag is set, then emits the event.
\<close>

definition onClusterClick :: "'m Cluster \<Rightarrow> AgmMarkerCluster \<Rightarrow> 'm effect list" where
  "onClusterClick cluster this =
     (if openInfoWindow this then map (\<lambda>w. infoWindow_open (iwId w)) (infoWindow this) else []) @
     [clusterClick_emit (clusterClickEvent cluster)]"

definition onDoubleClick :: "'m Cluster \<Rightarrow> AgmMarkerCluster \<Rightarrow> 'm effect list" where
  "onDoubleClick cluster this = [console_log cluster]"

fun runObserver :: "observer \<Rightarrow> 'm Cluster \<Rightarrow> AgmMarkerCluster \<Rightarrow> 'm effect list" where
  "runObserver ClusterClickObserver cluster this = onClusterClick cluster this"
| "runObserver DoubleClickObserver cluster this = onDoubleClick cluster this"

subsection \<open>Event delivery\<close>

text \<open>
  Modelled from the spec: the event stream of \<open>createClusterEventObservable\<close> (the cluster
  manager, services/managers/cluster-manager, is not under src/). The spec gives the
  manager the operation to "produce an event stream for a named cluster event": an event
  of that name runs the callback of every subscription on that stream that has not been
  released, in the order the subscriptions were made. Every subscription the directive
  makes is held in \<open>_observableSubscriptions\<close>.
\<close>

definition deliver :: "string \<Rightarrow> 'm Cluster \<Rightarrow> AgmMarkerCluster \<Rightarrow> 'm effect list" where
  "deliver name cluster this =
     concat (map (\<lambda>s. runObserver (observer s) cluster this)
                 (filter (\<lambda>s. eventName s = name \<and> \<not> closed s) (observableSubscriptions this)))"

subsection \<open>Executions of a directive instance\<close>

text \<open>The host binds an input by writing the property of that name.\<close>

datatype input =
    gridSize_input "number option"
  | maxZoom_input "number option"
  | zoomOnClick_input "bool option"
  | averageCenter_input "bool option"
  | minimumClusterSize_input "number option"
  | styles_input "ClusterStyle option"
  | openInfoWindow_input bool
  | imagePath_input "string option"
  | imageExtension_input "string option"

fun setInput :: "input \<Rightarrow> AgmMarkerCluster \<Rightarrow> AgmMarkerCluster" where
  "setInput (gridSize_input v) this = this\<lparr>gridSize := v\<rparr>"
| "setInput (maxZoom_input v) this = this\<lparr>maxZoom := v\<rparr>"
| "setInput (zoomOnClick_input v) this = this\<lparr>zoomOnClick := v\<rparr>"
| "setInput (averageCenter_input v) this = this\<lparr>averageCenter := v\<rparr>"
| "setInput (minimumClusterSize_input v) this = this\<lparr>minimumClusterSize := v\<rparr>"
| "setInput (styles_input v) this = this\<lparr>styles := v\<rparr>"
| "setInput (openInfoWindow_input v) this = this\<lparr>openInfoWindow := v\<rparr>"
| "setInput (imagePath_input v) this = this\<lparr>imagePath := v\<rparr>"
| "setInput (imageExtension_input v) this = this\<lparr>imageExtension := v\<rparr>"

text \<open>
  What can happen to an instance after its construction: the host binds an input, the
  framework calls a lifecycle hook, the content list changes (the constructor subscribed
  \<open>handleInfoWindowUpdate\<close> to \<open>infoWindow.changes\<close>), or the manager's stream of a
  named event fires with a cluster.
\<close>

datatype 'm host_event =
    SetInput input
  | NgOnChanges "string \<rightharpoonup> SimpleChange"
  | NgOnInit
  | InfoWindowChanges "AgmInfoWindow list"
  | ClusterEvent string "'m Cluster"
  | NgOnDestroy

fun step :: "'m host_event \<Rightarrow> AgmMarkerCluster \<Rightarrow> (error + 'm effect list) \<times> AgmMarkerCluster" where
  "step (SetInput i) this = (Inr [], setInput i this)"
| "step (NgOnChanges changes) this =
     (case ngOnChanges changes this of (out, this') \<Rightarrow> (Inr out, this'))"
| "step NgOnInit this = (case ngOnInit this of (out, this') \<Rightarrow> (Inr out, this'))"
| "step (InfoWindowChanges ws) this =
     (case handleInfoWindowUpdate (this\<lparr>infoWindow := ws\<rparr>) of
        (Inl err, this') \<Rightarrow> (Inl err, this')
      | (Inr _, this') \<Rightarrow> (Inr [], this'))"
| "step (ClusterEvent name cluster) this = (Inr (deliver name cluster this), this)"
| "step NgOnDestroy this = (case ngOnDestroy this of (out, this') \<Rightarrow> (Inr out, this'))"

text \<open>
  An execution: the directive, the calls made so far, and the error that ended it, if
  one was thrown (the error is not recovered from).
\<close>

record 'm execution =
  directive :: AgmMarkerCluster
  calls :: "'m effect list"
  thrown :: "error option"

fun run :: "'m host_event list \<Rightarrow> 'm execution \<Rightarrow> 'm execution" where
  "run [] x = x"
| "run (e # es) x =
     (case step e (directive x) of
        (Inl err, this') \<Rightarrow> x\<lparr>directive := this', thrown := Some err\<rparr>
      | (Inr out, this') \<Rightarrow> run es (x\<lparr>directive := this', calls := calls x @ out\<rparr>))"

definition start :: "'m execution" where
  "start = \<lparr>directive = snd constructor, calls = [], thrown = None\<rparr>"

subsection \<open>Classifying calls\<close>

fun isSetter :: "'m effect \<Rightarrow> bool" where
  "isSetter setGridSize = True"
| "isSetter setMaxZoom = True"
| "isSetter setStyles = True"
| "isSetter setZoomOnClick = True"
| "isSetter setAverageCenter = True"
| "isSetter setMinimumClusterSize = True"
| "isSetter setImagePath = True"
| "isSetter setImageExtension = True"
| "isSetter _ = False"

fun isInit :: "'m effect \<Rightarrow> bool" where
  "isInit (init opts) = True"
| "isInit _ = False"

fun isEmit :: "'m effect \<Rightarrow> bool" where
  "isEmit (clusterClick_emit ev) = True"
| "isEmit _ = False"

fun setsOpenInfoWindow :: "'m host_event \<Rightarrow> bool" where
  "setsOpenInfoWindow (SetInput (openInfoWindow_input v)) = True"
| "setsOpenInfoWindow _ = False"

subsection \<open>The subscriptions \<open>_addEventListeners\<close> makes\<close>

text \<open>
  A subscription of the shape \<open>_addEventListeners\<close> pushes: the click callback on the
  stream of \<open>clusterclick\<close> or the double-click callback on the stream of \<open>dblclick\<close>,
  not released.
\<close>

definition wellSubscribed :: "Subscription \<Rightarrow> bool" where
  "wellSubscribed s =
     ((eventName s = ''clusterclick'' \<and> observer s = ClusterClickObserver \<or>
       eventName s = ''dblclick'' \<and> observer s = DoubleClickObserver) \<and> \<not> closed s)"

subsection \<open>Example values\<close>

definition exampleCluster :: "unit Cluster" where
  "exampleCluster =
     \<lparr>getCenter = \<lparr>lat = 48, lng = 11\<rparr>,
      getBounds = \<lparr>getNorthEast = \<lparr>lat = 49, lng = 12\<rparr>, getSouthWest = \<lparr>lat = 47, lng = 10\<rparr>\<rparr>,
      getMarkers = [\<lparr>title = Some ''A''\<rparr>, \<lparr>title = None\<rparr>]\<rparr>"

definition exampleChange :: SimpleChange where
  "exampleChange = \<lparr>previousValue = Undefined, currentValue = Number 60, firstChange = True\<rparr>"

definition exampleInfoWindow :: AgmInfoWindow where
  "exampleInfoWindow = \<lparr>iwId = 7, hostMarker = None\<rparr>"

definition noOptions :: ClusterOptions where
  "noOptions =
     \<lparr>gridSize = None, maxZoom = None, zoomOnClick = None, averageCenter = None,
      minimumClusterSize = None, styles = None, imagePath = None, imageExtension = None\<rparr>"

text \<open>
  A directive with one info window attached and the two subscriptions of one call of
  \<open>_addEventListeners\<close>; \<open>openInfoWindow\<close> still has its initial value.
\<close>

definition exampleSubscribed :: AgmMarkerCluster where
  "exampleSubscribed =
     fieldInitializers
       \<lparr>infoWindow := [\<lparr>iwId = 7, hostMarker = Some This\<rparr>],
        observableSubscriptions :=
          [\<lparr>eventName = ''clusterclick'', observer = ClusterClickObserver, closed = False\<rparr>,
           \<lparr>eventName = ''dblclick'', observer = DoubleClickObserver, closed = False\<rparr>]\<rparr>"

section \<open>Properties\<close>

subsection \<open>Facts about the hooks and the callbacks\<close>

lemma start_directive: "directive start = fieldInitializers"
  by (simp add: start_def constructor_def handleInfoWindowUpdate_def fieldInitializers_def)

lemma start_calls: "calls start = []"
  by (simp add: start_def)

lemma example_run:
  "directive (run [NgOnChanges [''gridSize'' \<mapsto> exampleChange], NgOnInit,
                   InfoWindowChanges [exampleInfoWindow]] (start :: unit execution))
     = exampleSubscribed"
  by (simp add: start_directive ngOnChanges_def addEventListeners_def ngOnInit_def
        handleInfoWindowUpdate_def exampleInfoWindow_def exampleSubscribed_def
        fieldInitializers_def Let_def)

text \<open>Each of the seven options other than \<open>styles\<close>, changed alone, makes one setter call.\<close>

lemma ngOnChanges_other_options_once:
  "filter (\<lambda>c. isSetter c \<or> isInit c) (fst (ngOnChanges [''gridSize'' \<mapsto> change] this))
     = [setGridSize] \<and>
   filter (\<lambda>c. isSetter c \<or> isInit c) (fst (ngOnChanges [''maxZoom'' \<mapsto> change] this))
     = [setMaxZoom] \<and>
   filter (\<lambda>c. isSetter c \<or> isInit c) (fst (ngOnChanges [''zoomOnClick'' \<mapsto> change] this))
     = [setZoomOnClick] \<and>
   filter (\<lambda>c. isSetter c \<or> isInit c) (fst (ngOnChanges [''averageCenter'' \<mapsto> change] this))
     = [setAverageCenter] \<and>
   filter (\<lambda>c. isSetter c \<or> isInit c) (fst (ngOnChanges [''minimumClusterSize'' \<mapsto> change] this))
     = [setMinimumClusterSize] \<and>
   filter (\<lambda>c. isSetter c \<or> isInit c) (fst (ngOnChanges [''imagePath'' \<mapsto> change] this))
     = [setImagePath] \<and>
   filter (\<lambda>c. isSetter c \<or> isInit c) (fst (ngOnChanges [''imageExtension'' \<mapsto> change] this))
     = [setImageExtension]"
  by (simp add: ngOnChanges_def addEventListeners_def Let_def)

text \<open>Every call of \<open>ngOnChanges\<close>, whatever changed, pushes two more subscriptions.\<close>

lemma ngOnChanges_pushes_two_subscriptions:
  "ngOnChanges changes this = (out, this') \<Longrightarrow>
     observableSubscriptions this' =
       observableSubscriptions this @
         [\<lparr>eventName = ''clusterclick'', observer = ClusterClickObserver, closed = False\<rparr>,
          \<lparr>eventName = ''dblclick'', observer = DoubleClickObserver, closed = False\<rparr>]"
  by (auto simp: ngOnChanges_def addEventListeners_def Let_def)

lemma runObserver_open_flag:
  "infoWindow_open i \<in> set (runObserver ob cluster this) \<Longrightarrow> openInfoWindow this"
  by (cases ob) (auto simp: onClusterClick_def onDoubleClick_def split: if_splits)

lemma deliver_open_flag:
  "infoWindow_open i \<in> set (deliver name cluster this) \<Longrightarrow> openInfoWindow this"
  by (auto simp: deliver_def dest: runObserver_open_flag)

text \<open>
  In the calls of any sequence of callbacks, whatever comes before an emit holds the
  \<open>open\<close> of every attached info window, if the flag is set: a click callback opens
  first and emits last, a double-click callback does neither.
\<close>

lemma observers_open_before_emit:
  assumes "openInfoWindow this" and "w \<in> set (infoWindow this)"
  shows "concat (map (\<lambda>s. runObserver (observer s) cluster this) subs)
           = pre @ clusterClick_emit ev # post
         \<Longrightarrow> infoWindow_open (iwId w) \<in> set pre"
proof (induction subs arbitrary: pre)
  case Nil
  then show ?case by simp
next
  case (Cons s subs)
  let ?rest = "concat (map (\<lambda>s. runObserver (observer s) cluster this) subs)"
  show ?case
  proof (cases "observer s")
    case ClusterClickObserver
    let ?opens = "map (\<lambda>w. infoWindow_open (iwId w) :: 'a effect) (infoWindow this)"
    from Cons.prems ClusterClickObserver assms(1)
    have eq: "?opens @ (clusterClick_emit (clusterClickEvent cluster) # ?rest)
                = pre @ clusterClick_emit ev # post"
      by (simp add: onClusterClick_def)
    have "\<exists>us. pre = ?opens @ us"
    proof (rule ccontr)
      assume no: "\<not> (\<exists>us. pre = ?opens @ us)"
      from eq obtain us where
        "?opens = pre @ us \<and> us @ (clusterClick_emit (clusterClickEvent cluster) # ?rest)
            = clusterClick_emit ev # post
         \<or> ?opens @ us = pre \<and> clusterClick_emit (clusterClickEvent cluster) # ?rest
            = us @ clusterClick_emit ev # post"
        unfolding append_eq_append_conv2 by blast
      with no have split: "?opens = pre @ us"
        and rest: "us @ (clusterClick_emit (clusterClickEvent cluster) # ?rest)
                     = clusterClick_emit ev # post"
        by auto
      from no split have "us \<noteq> []" by auto
      with rest have "hd us = clusterClick_emit ev" by (cases us) auto
      with \<open>us \<noteq> []\<close> have "clusterClick_emit ev \<in> set us" by (cases us) auto
      with split have "clusterClick_emit ev \<in> set ?opens" by (metis Un_iff set_append)
      then show False by auto
    qed
    then obtain us where "pre = ?opens @ us" ..
    with assms(2) show ?thesis by auto
  next
    case DoubleClickObserver
    with Cons.prems have eq: "console_log cluster # ?rest = pre @ clusterClick_emit ev # post"
      by (simp add: onDoubleClick_def)
    then obtain pre' where pre: "pre = console_log cluster # pre'"
      by (cases pre) auto
    with eq have "?rest = pre' @ clusterClick_emit ev # post" by simp
    from Cons.IH [OF this] pre show ?thesis by simp
  qed
qed

lemma onClusterClick_open_before_emit:
  assumes "openInfoWindow this" and "w \<in> set (infoWindow this)"
      and "onClusterClick cluster this = pre @ clusterClick_emit ev # post"
  shows "infoWindow_open (iwId w) \<in> set pre"
proof -
  let ?s = "\<lparr>eventName = ''clusterclick'', observer = ClusterClickObserver, closed = False\<rparr>"
  from assms(3)
  have "concat (map (\<lambda>s. runObserver (observer s) cluster this) [?s])
          = pre @ clusterClick_emit ev # post"
    by simp
  from observers_open_before_emit [OF assms(1,2) this] show ?thesis .
qed

lemma runObserver_no_init: "init opts \<notin> set (runObserver ob cluster this)"
  by (cases ob) (auto simp: onClusterClick_def onDoubleClick_def)

lemma deliver_no_init: "init opts \<notin> set (deliver name cluster this)"
  by (auto simp: deliver_def runObserver_no_init)

lemma ngOnChanges_no_init: "init opts \<notin> set (fst (ngOnChanges changes this))"
  by (simp add: ngOnChanges_def addEventListeners_def Let_def)

lemma step_init_only_NgOnInit:
  "step e this = (Inr out, this') \<Longrightarrow> init opts \<in> set out \<Longrightarrow> e = NgOnInit"
proof (cases e)
  case (NgOnChanges changes)
  assume "step e this = (Inr out, this')" "init opts \<in> set out"
  with NgOnChanges have "out = fst (ngOnChanges changes this)" "init opts \<in> set out"
    by (auto split: prod.splits)
  with ngOnChanges_no_init show ?thesis by blast
next
  case (ClusterEvent name cluster)
  assume "step e this = (Inr out, this')" "init opts \<in> set out"
  with ClusterEvent deliver_no_init [of opts name cluster this] show ?thesis by auto
qed (auto simp: ngOnDestroy_def handleInfoWindowUpdate_def split: prod.splits sum.splits if_splits)

lemma run_init_only_NgOnInit:
  "init opts \<in> set (calls (run evs x)) \<Longrightarrow> init opts \<in> set (calls x) \<or> NgOnInit \<in> set evs"
proof (induction evs arbitrary: x)
  case Nil
  then show ?case by simp
next
  case (Cons e evs)
  obtain r this' where st: "step e (directive x) = (r, this')" by (cases "step e (directive x)")
  show ?case
  proof (cases r)
    case (Inl err)
    with st Cons.prems show ?thesis by simp
  next
    case (Inr out)
    with st Cons.prems
    have "init opts \<in> set (calls (run evs (x\<lparr>directive := this', calls := calls x @ out\<rparr>)))"
      by simp
    from Cons.IH [OF this]
    have "init opts \<in> set (calls x) \<or> init opts \<in> set out \<or> NgOnInit \<in> set evs" by auto
    with st Inr step_init_only_NgOnInit [of e "directive x" out this' opts]
    show ?thesis by auto
  qed
qed

text \<open>No hook and no callback writes \<open>openInfoWindow\<close>; only the host's binding does.\<close>

lemma step_openInfoWindow:
  "\<not> setsOpenInfoWindow e \<Longrightarrow> openInfoWindow (snd (step e this)) = openInfoWindow this"
proof (cases e)
  case (SetInput i)
  assume "\<not> setsOpenInfoWindow e"
  with SetInput show ?thesis by (cases i) auto
qed (auto simp: ngOnChanges_def addEventListeners_def ngOnInit_def ngOnDestroy_def
      handleInfoWindowUpdate_def Let_def split: prod.splits sum.splits)

lemma step_wellSubscribed:
  "list_all wellSubscribed (observableSubscriptions this) \<Longrightarrow>
   list_all wellSubscribed (observableSubscriptions (snd (step e this)))"
proof (cases e)
  case (SetInput i)
  assume "list_all wellSubscribed (observableSubscriptions this)"
  with SetInput show ?thesis by (cases i) auto
qed (auto simp: ngOnChanges_def addEventListeners_def ngOnInit_def ngOnDestroy_def
      handleInfoWindowUpdate_def wellSubscribed_def Let_def split: prod.splits sum.splits)

lemma run_invariant:
  assumes "\<forall>e \<in> set evs. \<not> setsOpenInfoWindow e"
      and "openInfoWindow (directive x)"
      and "list_all wellSubscribed (observableSubscriptions (directive x))"
  shows "openInfoWindow (directive (run evs x)) \<and>
         list_all wellSubscribed (observableSubscriptions (directive (run evs x)))"
  using assms
proof (induction evs arbitrary: x)
  case Nil
  then show ?case by simp
next
  case (Cons e evs)
  obtain r this' where st: "step e (directive x) = (r, this')" by (cases "step e (directive x)")
  from Cons.prems have e: "\<not> setsOpenInfoWindow e" by simp
  from step_openInfoWindow [OF e, of "directive x"] st Cons.prems(2)
  have flag: "openInfoWindow this'" by simp
  from step_wellSubscribed [OF Cons.prems(3), of e] st
  have subs: "list_all wellSubscribed (observableSubscriptions this')" by simp
  show ?case
  proof (cases r)
    case (Inl err)
    with st flag subs show ?thesis by simp
  next
    case (Inr out)
    let ?x' = "x\<lparr>directive := this', calls := calls x @ out\<rparr>"
    from Cons.prems(1) have "\<forall>e \<in> set evs. \<not> setsOpenInfoWindow e" by simp
    from Cons.IH [OF this, of ?x'] flag subs
    have "openInfoWindow (directive (run evs ?x')) \<and>
          list_all wellSubscribed (observableSubscriptions (directive (run evs ?x')))"
      by simp
    with st Inr show ?thesis by simp
  qed
qed

lemma deliver_click_opens:
  assumes "openInfoWindow this"
      and "s \<in> set (observableSubscriptions this)"
      and "eventName s = ''clusterclick''" and "observer s = ClusterClickObserver" and "\<not> closed s"
      and "w \<in> set (infoWindow this)"
  shows "infoWindow_open (iwId w) \<in> set (deliver ''clusterclick'' cluster this)"
proof -
  from assms(1,6) have "infoWindow_open (iwId w) \<in> set (runObserver (observer s) cluster this)"
    by (simp add: assms(4) onClusterClick_def)
  with assms(2,3,5) show ?thesis
    unfolding deliver_def by auto
qed

subsection \<open>The claims\<close>

text \<open>
  C1: a change of one option alone should make exactly one setter call and no other
  setter or init call. \<open>ngOnChanges\<close> tests the key \<open>styles\<close> at two places, so a
  change of \<open>styles\<close> alone makes two calls of \<open>setStyles\<close>.
\<close>

theorem ngOnChanges_styles_twice:
  "filter (\<lambda>c. isSetter c \<or> isInit c) (fst (ngOnChanges [''styles'' \<mapsto> change] this))
     = [setStyles, setStyles]"
  by (simp add: ngOnChanges_def addEventListeners_def Let_def)

text \<open>
  C2: the two subscriptions should be made once, at initialisation. \<open>ngOnInit\<close> makes
  none; every \<open>ngOnChanges\<close> makes two more, so after the first change notification,
  the initialisation and one later change the directive holds two subscriptions to
  \<open>clusterclick\<close> and two to \<open>dblclick\<close>.
\<close>

theorem ngOnChanges_subscribes_again:
  "map eventName (observableSubscriptions (directive
      (run [NgOnChanges [''gridSize'' \<mapsto> exampleChange], NgOnInit,
            NgOnChanges [''gridSize'' \<mapsto> exampleChange\<lparr>firstChange := False\<rparr>]]
           (start :: unit execution))))
     = [''clusterclick'', ''dblclick'', ''clusterclick'', ''dblclick''] \<and>
   observableSubscriptions (directive (run [NgOnInit] (start :: unit execution))) = []"
  by (simp add: start_directive ngOnChanges_def addEventListeners_def ngOnInit_def
        fieldInitializers_def Let_def)

text \<open>
  C3: the info-window check raises exactly when more than one info window is projected:
  with zero or one info window \<open>handleInfoWindowUpdate\<close> returns normally, with two or
  more it raises its error.
\<close>

theorem handleInfoWindowUpdate_raises_iff:
  "(fst (handleInfoWindowUpdate this) = Inr ()) = (length (infoWindow this) \<le> 1) \<and>
   (fst (handleInfoWindowUpdate this) = Inl (Error ''Expected no more than one info window.''))
     = (2 \<le> length (infoWindow this))"
  by (auto simp: handleInfoWindowUpdate_def)

theorem handleInfoWindowUpdate_raises_iff_witness:
  "fst (handleInfoWindowUpdate (fieldInitializers\<lparr>infoWindow := []\<rparr>)) = Inr () \<and>
   fst (handleInfoWindowUpdate (fieldInitializers\<lparr>infoWindow := [\<lparr>iwId = 1, hostMarker = None\<rparr>]\<rparr>))
     = Inr () \<and>
   fst (handleInfoWindowUpdate
          (fieldInitializers\<lparr>infoWindow := [\<lparr>iwId = 1, hostMarker = None\<rparr>,
                                             \<lparr>iwId = 2, hostMarker = None\<rparr>]\<rparr>))
     = Inl (Error ''Expected no more than one info window.'')"
  using handleInfoWindowUpdate_raises_iff [of "fieldInitializers\<lparr>infoWindow := []\<rparr>"]
        handleInfoWindowUpdate_raises_iff
          [of "fieldInitializers\<lparr>infoWindow := [\<lparr>iwId = 1, hostMarker = None\<rparr>]\<rparr>"]
        handleInfoWindowUpdate_raises_iff
          [of "fieldInitializers\<lparr>infoWindow := [\<lparr>iwId = 1, hostMarker = None\<rparr>,
                                                 \<lparr>iwId = 2, hostMarker = None\<rparr>]\<rparr>"]
  by simp

text \<open>
  C4: destruction should call \<open>clearMarkers\<close> exactly once, release the held
  subscriptions, and be followed by no further \<open>clusterClick\<close> event. \<open>ngOnDestroy\<close>
  calls \<open>clearMarkers\<close> once and does nothing else: the subscriptions it holds stay as
  they were, and a \<open>clusterclick\<close> that the stream delivers after the destruction is
  still emitted.
\<close>

theorem ngOnDestroy_keeps_subscriptions:
  "fst (ngOnDestroy this) = [clearMarkers :: unit effect] \<and>
   snd (ngOnDestroy this :: unit effect list \<times> AgmMarkerCluster) = this \<and>
   map closed (observableSubscriptions (directive
      (run [NgOnChanges [''gridSize'' \<mapsto> exampleChange], NgOnInit, NgOnDestroy]
           (start :: unit execution))))
     = [False, False] \<and>
   calls (run [NgOnChanges [''gridSize'' \<mapsto> exampleChange], NgOnInit, NgOnDestroy,
               ClusterEvent ''clusterclick'' exampleCluster] start)
     = [setGridSize, createClusterEventObservable ''clusterclick'',
        createClusterEventObservable ''dblclick'', init noOptions, clearMarkers,
        clusterClick_emit (clusterClickEvent exampleCluster)]"
  by (simp add: start_directive start_calls ngOnChanges_def addEventListeners_def ngOnInit_def
        ngOnDestroy_def deliver_def onClusterClick_def fieldInitializers_def noOptions_def Let_def)

text \<open>
  C5: when a cluster click is delivered and \<open>openInfoWindow\<close> is true, the \<open>open\<close> of the
  attached info window comes before the emit of \<open>clusterClick\<close>; when \<open>openInfoWindow\<close>
  is false, no \<open>open\<close> is called at all. This holds of one run of the click callback
  (which always ends with the emit) and of the calls of a delivered \<open>clusterclick\<close> as a
  whole, however many subscriptions it reaches.
\<close>

theorem clusterClick_opens_before_emit:
  "(\<exists>pre. onClusterClick cluster this = pre @ [clusterClick_emit (clusterClickEvent cluster)]) \<and>
   (openInfoWindow this \<longrightarrow>
      (\<forall>pre ev post w.
          (onClusterClick cluster this = pre @ clusterClick_emit ev # post \<or>
           deliver ''clusterclick'' cluster this = pre @ clusterClick_emit ev # post) \<longrightarrow>
          w \<in> set (infoWindow this) \<longrightarrow> infoWindow_open (iwId w) \<in> set pre)) \<and>
   (\<not> openInfoWindow this \<longrightarrow>
      (\<forall>i. infoWindow_open i \<notin> set (onClusterClick cluster this) \<and>
           infoWindow_open i \<notin> set (deliver ''clusterclick'' cluster this)))"
proof (intro conjI impI allI)
  show "\<exists>pre. onClusterClick cluster this = pre @ [clusterClick_emit (clusterClickEvent cluster)]"
    by (simp add: onClusterClick_def)
next
  fix pre ev post w
  assume flag: "openInfoWindow this"
    and trace: "onClusterClick cluster this = pre @ clusterClick_emit ev # post \<or>
                deliver ''clusterclick'' cluster this = pre @ clusterClick_emit ev # post"
    and attached: "w \<in> set (infoWindow this)"
  from trace show "infoWindow_open (iwId w) \<in> set pre"
  proof
    assume "onClusterClick cluster this = pre @ clusterClick_emit ev # post"
    with flag attached show ?thesis by (rule onClusterClick_open_before_emit)
  next
    assume "deliver ''clusterclick'' cluster this = pre @ clusterClick_emit ev # post"
    then show ?thesis
      unfolding deliver_def by (rule observers_open_before_emit [OF flag attached])
  qed
next
  fix i
  assume off: "\<not> openInfoWindow this"
  then show "infoWindow_open i \<notin> set (onClusterClick cluster this)"
    by (simp add: onClusterClick_def)
  from off show "infoWindow_open i \<notin> set (deliver ''clusterclick'' cluster this)"
    using deliver_open_flag by blast
qed

theorem clusterClick_opens_before_emit_witness:
  "deliver ''clusterclick'' exampleCluster exampleSubscribed
     = [infoWindow_open 7] @ clusterClick_emit (clusterClickEvent exampleCluster) # [] \<and>
   infoWindow_open 7 \<in> set [infoWindow_open 7 :: unit effect] \<and>
   deliver ''clusterclick'' exampleCluster (exampleSubscribed\<lparr>openInfoWindow := False\<rparr>)
     = [clusterClick_emit (clusterClickEvent exampleCluster)] \<and>
   infoWindow_open 7 \<notin> set (deliver ''clusterclick'' exampleCluster
                                (exampleSubscribed\<lparr>openInfoWindow := False\<rparr>))"
proof -
  have flag: "openInfoWindow exampleSubscribed"
    by (simp add: exampleSubscribed_def fieldInitializers_def)
  have trace: "deliver ''clusterclick'' exampleCluster exampleSubscribed
     = [infoWindow_open 7] @ clusterClick_emit (clusterClickEvent exampleCluster) # []"
    by (simp add: deliver_def onClusterClick_def exampleSubscribed_def fieldInitializers_def)
  have attached: "\<lparr>iwId = 7, hostMarker = Some This\<rparr> \<in> set (infoWindow exampleSubscribed)"
    by (simp add: exampleSubscribed_def)
  have off: "\<not> openInfoWindow (exampleSubscribed\<lparr>openInfoWindow := False\<rparr>)" by simp
  have trace_off:
    "deliver ''clusterclick'' exampleCluster (exampleSubscribed\<lparr>openInfoWindow := False\<rparr>)
       = [clusterClick_emit (clusterClickEvent exampleCluster)]"
    by (simp add: deliver_def onClusterClick_def exampleSubscribed_def fieldInitializers_def)
  from clusterClick_opens_before_emit [of exampleCluster exampleSubscribed] flag trace attached
  have before: "infoWindow_open 7 \<in> set [infoWindow_open 7 :: unit effect]"
    by simp
  from clusterClick_opens_before_emit
         [of exampleCluster "exampleSubscribed\<lparr>openInfoWindow := False\<rparr>"] off
  have never: "infoWindow_open 7 \<notin> set (deliver ''clusterclick'' exampleCluster
                                (exampleSubscribed\<lparr>openInfoWindow := False\<rparr>))"
    by blast
  from trace before trace_off never show ?thesis by simp
qed

text \<open>
  C6: the click callback emits one event. Its bounds are north and east from the
  latitude and longitude of the north-east corner of the cluster's bounds, south and west
  from the south-west corner; its center is the latitude and longitude of the cluster's
  center; its markers are the titles of the cluster's markers and nothing else, in the
  order of the cluster's marker list.
\<close>

theorem clusterClick_event_transcribes_cluster:
  "\<exists>ev. filter isEmit (onClusterClick cluster this) = [clusterClick_emit ev] \<and>
     north (bounds ev) = lat (getNorthEast (getBounds cluster)) \<and>
     east (bounds ev) = lng (getNorthEast (getBounds cluster)) \<and>
     south (bounds ev) = lat (getSouthWest (getBounds cluster)) \<and>
     west (bounds ev) = lng (getSouthWest (getBounds cluster)) \<and>
     lat (center ev) = lat (getCenter cluster) \<and>
     lng (center ev) = lng (getCenter cluster) \<and>
     markers ev = map (\<lambda>marker. \<lparr>title = title marker\<rparr>) (getMarkers cluster) \<and>
     map title (markers ev) = map title (getMarkers cluster)"
  by (simp add: onClusterClick_def clusterClickEvent_def Let_def filter_map o_def)

text \<open>
  C7: \<open>ngOnInit\<close> makes one call, \<open>init\<close>, and the object it passes holds the eight
  options \<open>gridSize\<close>, \<open>maxZoom\<close>, \<open>zoomOnClick\<close>, \<open>averageCenter\<close>,
  \<open>minimumClusterSize\<close>, \<open>styles\<close>, \<open>imagePath\<close> and \<open>imageExtension\<close> as the
  directive has them.
\<close>

theorem ngOnInit_forwards_all_options:
  "\<exists>opts. fst (ngOnInit this) = [init opts] \<and>
     gridSize opts = gridSize this \<and> maxZoom opts = maxZoom this \<and>
     zoomOnClick opts = zoomOnClick this \<and> averageCenter opts = averageCenter this \<and>
     minimumClusterSize opts = minimumClusterSize this \<and> styles opts = styles this \<and>
     imagePath opts = imagePath this \<and> imageExtension opts = imageExtension this"
  by (simp add: ngOnInit_def)

text \<open>
  C8: no call of \<open>ngOnChanges\<close>, whatever its changes, calls \<open>init\<close>; and in every
  execution of a directive an \<open>init\<close> call is made only if \<open>ngOnInit\<close> was called.
\<close>

theorem init_only_from_ngOnInit:
  "init opts \<notin> set (fst (ngOnChanges changes this)) \<and>
   (init opts \<in> set (calls (run evs start)) \<longrightarrow> NgOnInit \<in> set evs)"
proof
  show "init opts \<notin> set (fst (ngOnChanges changes this))"
    by (rule ngOnChanges_no_init)
  show "init opts \<in> set (calls (run evs start)) \<longrightarrow> NgOnInit \<in> set evs"
  proof
    assume "init opts \<in> set (calls (run evs start))"
    from run_init_only_NgOnInit [OF this] show "NgOnInit \<in> set evs"
      by (simp add: start_def)
  qed
qed

theorem init_only_from_ngOnInit_witness:
  "init noOptions \<in> set (calls (run [NgOnChanges Map.empty, NgOnInit] (start :: unit execution))) \<and>
   NgOnInit \<in> set [NgOnChanges Map.empty, NgOnInit :: unit host_event]"
proof -
  have reached:
    "init noOptions \<in> set (calls (run [NgOnChanges Map.empty, NgOnInit] (start :: unit execution)))"
    by (simp add: start_directive ngOnChanges_def addEventListeners_def ngOnInit_def
        fieldInitializers_def noOptions_def Let_def)
  from init_only_from_ngOnInit
         [of noOptions Map.empty fieldInitializers "[NgOnChanges Map.empty, NgOnInit]"]
  have "init noOptions \<in> set (calls (run [NgOnChanges Map.empty, NgOnInit] (start :: unit execution)))
          \<longrightarrow> NgOnInit \<in> set [NgOnChanges Map.empty, NgOnInit :: unit host_event]"
    by (rule conjunct2)
  with reached show ?thesis by blast
qed

text \<open>
  \<open>openInfoWindow\<close> is initially true and stays true in every execution in which the host
  never binds it, so the click callback then opens every attached info window. A
  delivered \<open>clusterclick\<close> runs the callback only where the directive holds a
  subscription to that stream.
\<close>

lemma subscribed_click_opens_by_default:
  assumes "\<forall>e \<in> set evs. \<not> setsOpenInfoWindow e"
      and "this = directive (run evs start)"
      and "s \<in> set (observableSubscriptions this)" and "eventName s = ''clusterclick''"
      and "w \<in> set (infoWindow this)"
  shows "openInfoWindow fieldInitializers \<and> openInfoWindow this \<and>
         infoWindow_open (iwId w) \<in> set (onClusterClick cluster this) \<and>
         infoWindow_open (iwId w) \<in> set (deliver ''clusterclick'' cluster this)"
proof -
  have initially: "openInfoWindow fieldInitializers"
    by (simp add: fieldInitializers_def)
  have "openInfoWindow (directive start)"
    and "list_all wellSubscribed (observableSubscriptions (directive start))"
    by (simp_all add: start_directive fieldInitializers_def)
  from run_invariant [OF assms(1) this]
  have flag: "openInfoWindow this"
    and subs: "list_all wellSubscribed (observableSubscriptions this)"
    by (simp_all add: assms(2))
  from subs assms(3) have "wellSubscribed s" by (simp add: list_all_iff)
  with assms(4) have "observer s = ClusterClickObserver" "\<not> closed s"
    by (auto simp: wellSubscribed_def)
  from deliver_click_opens [OF flag assms(3,4) this assms(5)]
  have delivered: "infoWindow_open (iwId w) \<in> set (deliver ''clusterclick'' cluster this)" .
  from flag assms(5) have "infoWindow_open (iwId w) \<in> set (onClusterClick cluster this)"
    by (simp add: onClusterClick_def)
  with initially flag delivered show ?thesis by simp
qed

lemma subscribed_click_opens_by_default_example:
  "infoWindow_open 7 \<in> set (deliver ''clusterclick'' exampleCluster
      (directive (run [NgOnChanges [''gridSize'' \<mapsto> exampleChange], NgOnInit,
                       InfoWindowChanges [exampleInfoWindow]] (start :: unit execution))))"
proof -
  let ?evs = "[NgOnChanges [''gridSize'' \<mapsto> exampleChange], NgOnInit,
               InfoWindowChanges [exampleInfoWindow]] :: unit host_event list"
  let ?s = "\<lparr>eventName = ''clusterclick'', observer = ClusterClickObserver, closed = False\<rparr>"
  let ?w = "\<lparr>iwId = 7, hostMarker = Some This\<rparr>"
  have never_set: "\<forall>e \<in> set ?evs. \<not> setsOpenInfoWindow e" by simp
  have reached: "exampleSubscribed = directive (run ?evs start)"
    by (simp only: example_run)
  have subscribed: "?s \<in> set (observableSubscriptions exampleSubscribed)"
    by (simp add: exampleSubscribed_def)
  have click: "eventName ?s = ''clusterclick''" by simp
  have attached: "?w \<in> set (infoWindow exampleSubscribed)"
    by (simp add: exampleSubscribed_def)
  from subscribed_click_opens_by_default
         [OF never_set reached subscribed click attached, of exampleCluster]
  have "infoWindow_open 7 \<in> set (deliver ''clusterclick'' exampleCluster exampleSubscribed)"
    by simp
  then show ?thesis by (simp only: example_run)
qed

text \<open>
  C9: with \<open>openInfoWindow\<close> never bound by the host, a cluster click should open the
  attached info window. The flag is true by default, but the click callback is
  subscribed by \<open>ngOnChanges\<close> alone: a directive none of whose inputs is bound is
  initialised by \<open>ngOnInit\<close> without any change notification, holds no subscription,
  and a \<open>clusterclick\<close> then opens nothing, although the flag is true and an info window
  is attached.
\<close>

theorem unbound_directive_click_opens_nothing:
  "openInfoWindow (directive (run [NgOnInit, InfoWindowChanges [exampleInfoWindow]]
                                  (start :: unit execution))) \<and>
   infoWindow (directive (run [NgOnInit, InfoWindowChanges [exampleInfoWindow]]
                              (start :: unit execution)))
     = [\<lparr>iwId = 7, hostMarker = Some This\<rparr>] \<and>
   observableSubscriptions (directive (run [NgOnInit, InfoWindowChanges [exampleInfoWindow]]
                                           (start :: unit execution))) = [] \<and>
   deliver ''clusterclick'' exampleCluster
     (directive (run [NgOnInit, InfoWindowChanges [exampleInfoWindow]] (start :: unit execution)))
     = [] \<and>
   calls (run [NgOnInit, InfoWindowChanges [exampleInfoWindow],
               ClusterEvent ''clusterclick'' exampleCluster] start)
     = [init noOptions]"
  by (simp add: start_directive start_calls ngOnInit_def handleInfoWindowUpdate_def deliver_def
        exampleInfoWindow_def fieldInitializers_def noOptions_def)

text \<open>
  C10: when \<open>handleInfoWindowUpdate\<close> raises, it has assigned nothing: the directive, and
  with it the \<open>hostMarker\<close> of every projected info window, is as it was before the
  call.
\<close>

theorem handleInfoWindowUpdate_atomic:
  "fst (handleInfoWindowUpdate this) = Inl err \<Longrightarrow>
     snd (handleInfoWindowUpdate this) = this \<and>
     map hostMarker (infoWindow (snd (handleInfoWindowUpdate this)))
       = map hostMarker (infoWindow this)"
  by (simp add: handleInfoWindowUpdate_def split: if_splits)

theorem handleInfoWindowUpdate_atomic_witness:
  "map hostMarker (infoWindow (snd (handleInfoWindowUpdate
      (fieldInitializers\<lparr>infoWindow := [\<lparr>iwId = 1, hostMarker = None\<rparr>,
                                         \<lparr>iwId = 2, hostMarker = Some (AgmMarker 5)\<rparr>]\<rparr>))))
   = [None, Some (AgmMarker 5)]"
proof -
  let ?d = "fieldInitializers\<lparr>infoWindow := [\<lparr>iwId = 1, hostMarker = None\<rparr>,
                                             \<lparr>iwId = 2, hostMarker = Some (AgmMarker 5)\<rparr>]\<rparr>"
  have raised:
    "fst (handleInfoWindowUpdate ?d) = Inl (Error ''Expected no more than one info window.'')"
    by (simp add: handleInfoWindowUpdate_def)
  from handleInfoWindowUpdate_atomic [OF raised]
  have "map hostMarker (infoWindow (snd (handleInfoWindowUpdate ?d)))
          = map hostMarker (infoWindow ?d)"
    by (rule conjunct2)
  then show ?thesis by simp
qed

end
